theory Spec2Isabelle
  imports Main
begin

unbundle bit_operations_syntax

section \<open>Data model of IMU.py\<close>

text \<open>
  The module \<open>LSM9DS0\<close> that IMU.py imports its bus addresses and register numbers from
  is not part of the repository. The names are kept as they appear in IMU.py; the numbers
  behind them are parameters of the environment (\<open>addr_of\<close>, \<open>reg_of\<close>).
\<close>

datatype address = ACC_ADDRESS | MAG_ADDRESS | GYR_ADDRESS

datatype register =
    CTRL_REG1_XM | CTRL_REG2_XM | CTRL_REG5_XM | CTRL_REG6_XM | CTRL_REG7_XM
  | CTRL_REG1_G | CTRL_REG4_G
  | OUT_X_L_A | OUT_X_H_A | OUT_Y_L_A | OUT_Y_H_A | OUT_Z_L_A | OUT_Z_H_A
  | OUT_X_L_M | OUT_X_H_M | OUT_Y_L_M | OUT_Y_H_M | OUT_Z_L_M | OUT_Z_H_M
  | OUT_X_L_G | OUT_X_H_G | OUT_Y_L_G | OUT_Y_H_G | OUT_Z_L_G | OUT_Z_H_G

text \<open>
  Exceptions. \<open>SensorInactiveError\<close> carries the attribute \<open>sensor\<close>; \<open>ValueError\<close>
  carries its message; \<open>OSError\<close> is what a failed bus transaction, file operation or
  pipe send raises; \<open>ZeroDivisionError\<close> is what \<open>1/freq\<close> raises for \<open>freq = 0\<close>.
\<close>

datatype error =
    SensorInactiveError string
  | ValueError string
  | OSError
  | ZeroDivisionError

text \<open>The attribute \<open>message\<close> that \<open>SensorInactiveError.__init__\<close> builds.\<close>

definition message :: "string \<Rightarrow> string" where
  "message sensor =
     ''Attempted to read data from the '' @ sensor @ '' failed due to inactive sensor''"

text \<open>The dictionary with the keys \<open>'x'\<close>, \<open>'y'\<close>, \<open>'z'\<close> that \<open>readAcc\<close> and its siblings return.\<close>

record reading =
  x :: int
  y :: int
  z :: int

text \<open>
  Everything the program does to the outside world is recorded, in order, as an event.
  \<open>Sleep freq\<close> stands for \<open>time.sleep(1/freq)\<close>; \<open>FlagSet i\<close> for setting the \<open>i\<close>-th
  tracked exit flag to 1 under its lock; \<open>ProcJoin i timeout\<close> for joining the \<open>i\<close>-th tracked
  process (IMU.py passes no timeout).
\<close>

datatype event =
    BusRead int int int
  | BusWrite int int int
  | FileOpen string
  | FileWrite string string
  | FileClose string
  | PipeSend reading reading reading
  | PipeClose
  | FlagRead int
  | FlagSet nat
  | Sleep int
  | Print string
  | ProcStart nat
  | ProcJoin nat "int option"

text \<open>
  The \<open>IMU\<close> object together with the trace of events so far. \<open>processes\<close> holds the
  handles of the launched processes and \<open>flags\<close> the values of their exit flags, both in the
  order of \<open>append\<close>.
\<close>

record world =
  acc_active :: bool
  gyr_active :: bool
  mag_active :: bool
  processes :: "nat list"
  flags :: "int list"
  save_path :: string
  trace :: "event list"

text \<open>
  The environment: the register map, and what the hardware, the file system and the
  other processes answer at each moment. Time is the number of events so far.
  \<open>read_byte t a r = None\<close> means that the bus read fails at time \<open>t\<close>; \<open>flag_value t\<close>
  is the value of the shared exit flag at time \<open>t\<close>.
\<close>

record env =
  addr_of :: "address \<Rightarrow> int"
  reg_of :: "register \<Rightarrow> int"
  read_byte :: "nat \<Rightarrow> int \<Rightarrow> int \<Rightarrow> int option"
  write_ok :: "nat \<Rightarrow> bool"
  io_ok :: "nat \<Rightarrow> bool"
  flag_value :: "nat \<Rightarrow> int"

section \<open>Statements that may raise\<close>

type_synonym 'a io = "world \<Rightarrow> (error + 'a) \<times> world"

definition return_io :: "'a \<Rightarrow> 'a io" where
  "return_io v w = (Inr v, w)"

definition bind_io :: "'a io \<Rightarrow> ('a \<Rightarrow> 'b io) \<Rightarrow> 'b io" where
  "bind_io m f w = (case m w of (Inl e, w') \<Rightarrow> (Inl e, w') | (Inr v, w') \<Rightarrow> f v w')"

definition now :: "world \<Rightarrow> nat" where
  "now w = length (trace w)"

definition emit :: "event \<Rightarrow> world \<Rightarrow> world" where
  "emit e w = w\<lparr>trace := trace w @ [e]\<rparr>"

text \<open>\<open>self.bus.read_byte_data(address, register)\<close> and \<open>self.bus.write_byte_data\<close>.\<close>

definition read_byte_data :: "env \<Rightarrow> int \<Rightarrow> int \<Rightarrow> int io" where
  "read_byte_data E a r w =
     (case read_byte E (now w) a r of
        None \<Rightarrow> (Inl OSError, w)
      | Some b \<Rightarrow> (Inr b, emit (BusRead a r b) w))"

definition write_byte_data :: "env \<Rightarrow> int \<Rightarrow> int \<Rightarrow> int \<Rightarrow> unit io" where
  "write_byte_data E a r v w =
     (if write_ok E (now w) then (Inr (), emit (BusWrite a r v) w) else (Inl OSError, w))"

section \<open>Reading one axis\<close>

definition axis_msg :: string where
  "axis_msg = ''Expected axis to be 0,1 or 2 corresponding to x,y,z''"

definition readAccAxis :: "env \<Rightarrow> int \<Rightarrow> int io" where
  "readAccAxis E axis w =
     (if acc_active w = False then (Inl (SensorInactiveError ''Accelerometer''), w)
      else
        (case (if axis = 0 then Some (OUT_X_L_A, OUT_X_H_A)
               else if axis = 1 then Some (OUT_Y_L_A, OUT_Y_H_A)
               else if axis = 2 then Some (OUT_Z_L_A, OUT_Z_H_A)
               else None) of
           None \<Rightarrow> (Inl (ValueError axis_msg), w)
         | Some (register_l, register_h) \<Rightarrow>
             bind_io (read_byte_data E (addr_of E ACC_ADDRESS) (reg_of E register_l)) (\<lambda>acc_l.
             bind_io (read_byte_data E (addr_of E ACC_ADDRESS) (reg_of E register_h)) (\<lambda>acc_h.
               let acc_combined = acc_l OR push_bit 8 acc_h
               in return_io (if acc_combined < 32768 then acc_combined
                             else acc_combined - 65536))) w))"

definition readMagAxis :: "env \<Rightarrow> int \<Rightarrow> int io" where
  "readMagAxis E axis w =
     (if mag_active w = False then (Inl (SensorInactiveError ''Accelerometer''), w)
      else
        (case (if axis = 0 then Some (OUT_X_L_M, OUT_X_H_M)
               else if axis = 1 then Some (OUT_Y_L_M, OUT_Y_H_M)
               else if axis = 2 then Some (OUT_Z_L_M, OUT_Z_H_M)
               else None) of
           None \<Rightarrow> (Inl (ValueError axis_msg), w)
         | Some (register_l, register_h) \<Rightarrow>
             bind_io (read_byte_data E (addr_of E MAG_ADDRESS) (reg_of E register_l)) (\<lambda>mag_l.
             bind_io (read_byte_data E (addr_of E MAG_ADDRESS) (reg_of E register_h)) (\<lambda>mag_h.
               let mag_combined = mag_l OR push_bit 8 mag_h
               in return_io (if mag_combined < 32768 then mag_combined
                             else mag_combined - 65536))) w))"

text \<open>As in IMU.py, \<open>readGyrAxis\<close> tests \<open>_acc_active\<close>.\<close>

definition readGyrAxis :: "env \<Rightarrow> int \<Rightarrow> int io" where
  "readGyrAxis E axis w =
     (if acc_active w = False then (Inl (SensorInactiveError ''Accelerometer''), w)
      else
        (case (if axis = 0 then Some (OUT_X_L_G, OUT_X_H_G)
               else if axis = 1 then Some (OUT_Y_L_G, OUT_Y_H_G)
               else if axis = 2 then Some (OUT_Z_L_G, OUT_Z_H_G)
               else None) of
           None \<Rightarrow> (Inl (ValueError axis_msg), w)
         | Some (register_l, register_h) \<Rightarrow>
             bind_io (read_byte_data E (addr_of E GYR_ADDRESS) (reg_of E register_l)) (\<lambda>gyr_l.
             bind_io (read_byte_data E (addr_of E GYR_ADDRESS) (reg_of E register_h)) (\<lambda>gyr_h.
               let gyr_combined = gyr_l OR push_bit 8 gyr_h
               in return_io (if gyr_combined < 32768 then gyr_combined
                             else gyr_combined - 65536))) w))"

section \<open>Configuration\<close>

text \<open>\<open>writeReg\<close>: the bus write, then \<open>return -1\<close>.\<close>

definition writeReg :: "env \<Rightarrow> int \<Rightarrow> int \<Rightarrow> int \<Rightarrow> int io" where
  "writeReg E a r v = bind_io (write_byte_data E a r v) (\<lambda>_. return_io (- 1))"

text \<open>
  The state that \<open>__init__\<close> leaves: no process, no flag, every sensor inactive. The
  directory of \<open>save_path\<close> is a parameter; its creation is outside the model.
\<close>

definition init_world :: "string \<Rightarrow> world" where
  "init_world p =
     \<lparr>acc_active = False, gyr_active = False, mag_active = False,
      processes = [], flags = [], save_path = p, trace = []\<rparr>"

definition reset_registers :: "env \<Rightarrow> unit io" where
  "reset_registers E =
     bind_io (writeReg E (addr_of E ACC_ADDRESS) (reg_of E CTRL_REG1_XM) 0) (\<lambda>_.
     bind_io (writeReg E (addr_of E ACC_ADDRESS) (reg_of E CTRL_REG2_XM) 0) (\<lambda>_.
     bind_io (writeReg E (addr_of E MAG_ADDRESS) (reg_of E CTRL_REG5_XM) 0) (\<lambda>_.
     bind_io (writeReg E (addr_of E MAG_ADDRESS) (reg_of E CTRL_REG6_XM) 0) (\<lambda>_.
     bind_io (writeReg E (addr_of E MAG_ADDRESS) (reg_of E CTRL_REG7_XM) 0) (\<lambda>_.
     bind_io (writeReg E (addr_of E GYR_ADDRESS) (reg_of E CTRL_REG1_G) 0) (\<lambda>_.
     bind_io (writeReg E (addr_of E GYR_ADDRESS) (reg_of E CTRL_REG4_G) 0) (\<lambda>_.
       (\<lambda>w. (Inr (), w\<lparr>acc_active := False, gyr_active := False, mag_active := False\<rparr>)))))))))"

definition setup_default :: "env \<Rightarrow> unit io" where
  "setup_default E =
     bind_io (writeReg E (addr_of E ACC_ADDRESS) (reg_of E CTRL_REG1_XM) 103) (\<lambda>_.
     bind_io (writeReg E (addr_of E ACC_ADDRESS) (reg_of E CTRL_REG2_XM) 32) (\<lambda>_.
     bind_io (writeReg E (addr_of E MAG_ADDRESS) (reg_of E CTRL_REG5_XM) 240) (\<lambda>_.
     bind_io (writeReg E (addr_of E MAG_ADDRESS) (reg_of E CTRL_REG6_XM) 96) (\<lambda>_.
     bind_io (writeReg E (addr_of E MAG_ADDRESS) (reg_of E CTRL_REG7_XM) 0) (\<lambda>_.
     bind_io (writeReg E (addr_of E GYR_ADDRESS) (reg_of E CTRL_REG1_G) 15) (\<lambda>_.
     bind_io (writeReg E (addr_of E GYR_ADDRESS) (reg_of E CTRL_REG4_G) 48) (\<lambda>_.
       (\<lambda>w. (Inr (), w\<lparr>acc_active := True, mag_active := True, gyr_active := True\<rparr>)))))))))"

section \<open>Reading the three axes\<close>

definition readAcc :: "env \<Rightarrow> reading io" where
  "readAcc E =
     bind_io (readAccAxis E 0) (\<lambda>vx.
     bind_io (readAccAxis E 1) (\<lambda>vy.
     bind_io (readAccAxis E 2) (\<lambda>vz.
       return_io \<lparr>x = vx, y = vy, z = vz\<rparr>)))"

definition readGyr :: "env \<Rightarrow> reading io" where
  "readGyr E =
     bind_io (readGyrAxis E 0) (\<lambda>vx.
     bind_io (readGyrAxis E 1) (\<lambda>vy.
     bind_io (readGyrAxis E 2) (\<lambda>vz.
       return_io \<lparr>x = vx, y = vy, z = vz\<rparr>)))"

definition readMag :: "env \<Rightarrow> reading io" where
  "readMag E =
     bind_io (readMagAxis E 0) (\<lambda>vx.
     bind_io (readMagAxis E 1) (\<lambda>vy.
     bind_io (readMagAxis E 2) (\<lambda>vz.
       return_io \<lparr>x = vx, y = vy, z = vz\<rparr>)))"

section \<open>Formatting\<close>

text \<open>What \<open>'{}'.format\<close> prints for an integer: its decimal digits, with a sign if negative.\<close>

fun str_nat :: "nat \<Rightarrow> string" where
  "str_nat n =
     (if n < 10 then [char_of (48 + n)]
      else str_nat (n div 10) @ [char_of (48 + n mod 10)])"

declare str_nat.simps [simp del]

definition str_int :: "int \<Rightarrow> string" where
  "str_int i = (if i < 0 then CHR ''-'' # str_nat (nat (- i)) else str_nat (nat i))"

text \<open>
  \<open>self.save_path / name\<close>, as a string. \<open>pathlib\<close> splits \<open>name\<close> at the slashes and drops
  the empty parts and the parts \<open>.\<close>; a \<open>name\<close> that starts with a slash replaces the left
  operand, and keeps a root of two slashes when it starts with exactly two. The left
  operand is the string of \<open>self.save_path\<close>, which \<open>pathlib\<close> has normalised already and
  which ends in \<open>IMU_Data\<close>.
\<close>

fun split_path :: "string \<Rightarrow> string list" where
  "split_path [] = [[]]"
| "split_path (c # cs) =
     (if c = CHR ''/'' then [] # split_path cs
      else (case split_path cs of [] \<Rightarrow> [[c]] | part # parts \<Rightarrow> (c # part) # parts))"

definition path_parts :: "string \<Rightarrow> string list" where
  "path_parts q = filter (\<lambda>part. part \<noteq> [] \<and> part \<noteq> ''.'') (split_path q)"

definition path_root :: "string \<Rightarrow> string" where
  "path_root q =
     (if take 3 q = ''///'' then ''/''
      else if take 2 q = ''//'' then ''//''
      else if take 1 q = ''/'' then ''/''
      else [])"

definition path_join :: "string \<Rightarrow> string \<Rightarrow> string" where
  "path_join p q =
     (if path_root q = [] then foldl (\<lambda>a part. a @ ''/'' @ part) p (path_parts q)
      else (case path_parts q of
              [] \<Rightarrow> path_root q
            | part # parts \<Rightarrow> foldl (\<lambda>a part. a @ ''/'' @ part) (path_root q @ part) parts))"

definition file_output :: "reading \<Rightarrow> reading \<Rightarrow> reading \<Rightarrow> string" where
  "file_output acc mag gyr =
     ''Acc: '' @ str_int (x acc) @ '' '' @ str_int (y acc) @ '' '' @ str_int (z acc) @
     '' Gyr: '' @ str_int (x gyr) @ '' '' @ str_int (y gyr) @ '' '' @ str_int (z gyr) @
     '' Mag: '' @ str_int (x mag) @ '' '' @ str_int (y mag) @ '' '' @ str_int (z mag) @
     [CHR 0x0A]"

section \<open>The acquisition task\<close>

definition file_open :: "env \<Rightarrow> string \<Rightarrow> unit io" where
  "file_open E path w =
     (if io_ok E (now w) then (Inr (), emit (FileOpen path) w) else (Inl OSError, w))"

text \<open>
  \<open>file.write(file_output)\<close> puts the line into the buffer of the file object and does not
  fail; the line reaches the file system when the file is closed, and that is where a failed
  write shows, as the \<open>OSError\<close> of the close.
\<close>

definition file_write :: "string \<Rightarrow> string \<Rightarrow> unit io" where
  "file_write path line w = (Inr (), emit (FileWrite path line) w)"

definition file_close :: "env \<Rightarrow> string \<Rightarrow> unit io" where
  "file_close E path w =
     (if io_ok E (now w) then (Inr (), emit (FileClose path) w) else (Inl OSError, w))"

definition pipe_send :: "env \<Rightarrow> reading \<Rightarrow> reading \<Rightarrow> reading \<Rightarrow> unit io" where
  "pipe_send E acc mag gyr w =
     (if io_ok E (now w) then (Inr (), emit (PipeSend acc mag gyr) w) else (Inl OSError, w))"

text \<open>\<open>with exit_flag.get_lock(): local_flag = exit_flag.value\<close>\<close>

definition read_flag :: "env \<Rightarrow> int io" where
  "read_flag E w = (let v = flag_value E (now w) in (Inr v, emit (FlagRead v) w))"

text \<open>\<open>time.sleep(1/freq)\<close>\<close>

definition sleep :: "int \<Rightarrow> unit io" where
  "sleep freq w =
     (if freq = 0 then (Inl ZeroDivisionError, w)
      else if freq < 0 then (Inl (ValueError ''sleep length must be non-negative''), w)
      else (Inr (), emit (Sleep freq) w))"

text \<open>
  One turn of the \<open>for\<close> loop, for the current value of \<open>n\<close>: the \<open>with open(...)\<close> block.
  The file is closed on every way out of the block, and an error of the close replaces an
  error raised in the block. The result is the new \<open>local_flag\<close>.
\<close>

definition take_sample :: "env \<Rightarrow> int \<Rightarrow> string \<Rightarrow> int \<Rightarrow> int io" where
  "take_sample E freq file_name n w =
     (let file_path = path_join (save_path w) (file_name @ ''_'' @ str_int n @ ''.txt'')
      in case file_open E file_path w of
           (Inl e, w0) \<Rightarrow> (Inl e, w0)
         | (Inr _, w0) \<Rightarrow>
             (case bind_io (readAcc E) (\<lambda>acc.
                   bind_io (readMag E) (\<lambda>mag.
                   bind_io (readGyr E) (\<lambda>gyr.
                   bind_io (file_write file_path (file_output acc mag gyr)) (\<lambda>_.
                   bind_io (pipe_send E acc mag gyr) (\<lambda>_.
                   bind_io (read_flag E) (\<lambda>local_flag.
                   bind_io (sleep freq) (\<lambda>_.
                     return_io local_flag))))))) w0 of
                (r, w1) \<Rightarrow>
                  (case file_close E file_path w1 of
                     (Inl e, w2) \<Rightarrow> (Inl e, w2)
                   | (Inr _, w2) \<Rightarrow> (r, w2))))"

text \<open>
  \<open>for i in range(0, cut*freq)\<close>, with the number of turns left, \<open>n\<close> and
  \<open>local_flag\<close> as the loop state; \<open>n += 1\<close> at each turn.
\<close>

fun for_loop :: "env \<Rightarrow> int \<Rightarrow> string \<Rightarrow> nat \<Rightarrow> int \<Rightarrow> int \<Rightarrow> int io" where
  "for_loop E freq file_name 0 n local_flag w = (Inr local_flag, w)"
| "for_loop E freq file_name (Suc k) n local_flag w =
     (case take_sample E freq file_name n w of
        (Inl e, w') \<Rightarrow> (Inl e, w')
      | (Inr lf, w') \<Rightarrow> for_loop E freq file_name k (n + 1) lf w')"

text \<open>
  \<open>while local_flag == 0\<close>. The loop need not end, so it runs on fuel, one unit per turn;
  \<open>None\<close> means that the fuel ran out with the loop still running.
\<close>

fun while_loop ::
  "nat \<Rightarrow> env \<Rightarrow> int \<Rightarrow> string \<Rightarrow> int option \<Rightarrow> int \<Rightarrow> world \<Rightarrow> (error + unit) option \<times> world"
where
  "while_loop 0 E freq file_name cut' local_flag w =
     (if local_flag = 0 then (None, w) else (Some (Inr ()), w))"
| "while_loop (Suc fuel) E freq file_name cut' local_flag w =
     (if local_flag = 0 then
        (case cut' of
           None \<Rightarrow> while_loop fuel E freq file_name cut' local_flag w
         | Some c \<Rightarrow>
             (case for_loop E freq file_name (nat (c * freq)) 0 local_flag w of
                (Inl e, w') \<Rightarrow> (Some (Inl e), w')
              | (Inr lf, w') \<Rightarrow> while_loop fuel E freq file_name cut' lf w'))
      else (Some (Inr ()), w))"

text \<open>
  The \<open>try\<close> block of \<open>_take_measurements\<close>: the first read of the flag, the loop, and
  \<open>pipe.close()\<close> once the loop has ended.
\<close>

definition try_body ::
  "nat \<Rightarrow> env \<Rightarrow> int \<Rightarrow> string \<Rightarrow> int option \<Rightarrow> world \<Rightarrow> (error + unit) option \<times> world"
where
  "try_body fuel E freq file_name cut' w =
     (case read_flag E w of
        (Inl e, w0) \<Rightarrow> (Some (Inl e), w0)
      | (Inr local_flag, w0) \<Rightarrow>
          (case while_loop fuel E freq file_name cut' local_flag w0 of
             (Some (Inr _), w1) \<Rightarrow> (Some (Inr ()), emit PipeClose w1)
           | (r, w1) \<Rightarrow> (r, w1)))"

text \<open>
  \<open>_take_measurements\<close>: the \<open>try\<close> block with its one handler,
  \<open>except SensorInactiveError as e: print(e.message)\<close>.
\<close>

definition take_measurements ::
  "nat \<Rightarrow> env \<Rightarrow> int \<Rightarrow> string \<Rightarrow> int option \<Rightarrow> world \<Rightarrow> (error + unit) option \<times> world"
where
  "take_measurements fuel E freq file_name cut' w =
     (case try_body fuel E freq file_name cut' w of
        (Some (Inl (SensorInactiveError sensor)), w') \<Rightarrow>
          (Some (Inr ()), emit (Print (message sensor)) w')
      | (r, w') \<Rightarrow> (r, w'))"

section \<open>Launching and ending the processes\<close>

text \<open>
  \<open>take_measurements_process\<close>, seen from the parent: the new process (handle \<open>p\<close>) and its
  exit flag, initially 0, are appended, and the process is started.
\<close>

definition take_measurements_process :: "nat \<Rightarrow> world \<Rightarrow> world" where
  "take_measurements_process p w =
     emit (ProcStart p) (w\<lparr>processes := processes w @ [p], flags := flags w @ [0]\<rparr>)"

text \<open>\<open>for flag in self._flags: flag.value = 1\<close>, with the index of the flag.\<close>

fun set_flags :: "int list \<Rightarrow> nat \<Rightarrow> world \<Rightarrow> world" where
  "set_flags [] i w = w"
| "set_flags (flag # rest) i w =
     set_flags rest (Suc i) (emit (FlagSet i) (w\<lparr>flags := (flags w)[i := 1]\<rparr>))"

text \<open>\<open>for i, process in enumerate(self._processes)\<close>: join, then print.\<close>

fun join_all :: "nat list \<Rightarrow> nat \<Rightarrow> world \<Rightarrow> world" where
  "join_all [] i w = w"
| "join_all (process # rest) i w =
     join_all rest (Suc i)
       (emit (Print (''IMU Process '' @ str_int (int i) @ '' joined''))
         (emit (ProcJoin process None) w))"

definition end_measurements_processes :: "world \<Rightarrow> world" where
  "end_measurements_processes w = join_all (processes w) 0 (set_flags (flags w) 0 w)"

section \<open>Concrete environments and states\<close>

text \<open>
  A bus that answers \<open>lo\<close> at even times and \<open>hi\<close> at odd times, with stand-in
  register numbers; every write and every file or pipe operation succeeds and the exit
  flag stays 0.
\<close>

definition env_const :: "int \<Rightarrow> int \<Rightarrow> env" where
  "env_const lo hi =
     \<lparr>addr_of = (\<lambda>a. case a of GYR_ADDRESS \<Rightarrow> 106 | _ \<Rightarrow> 30), reg_of = (\<lambda>_. 40),
      read_byte = (\<lambda>t a r. Some (if even t then lo else hi)),
      write_ok = (\<lambda>_. True), io_ok = (\<lambda>_. True), flag_value = (\<lambda>t. 0)\<rparr>"

text \<open>The state after \<open>__init__\<close> and a successful \<open>setup_default\<close>, with no event recorded.\<close>

definition active_world :: world where
  "active_world =
     (init_world ''IMU_Data'')\<lparr>acc_active := True, mag_active := True, gyr_active := True\<rparr>"

text \<open>
  The same, with the exit flag at 0 on its first read (time 0) and at 1 from then on: the
  cancellation is requested right after the task has started.
\<close>

definition env_cancel :: env where
  "env_cancel = (env_const 1 2)\<lparr>flag_value := (\<lambda>t. if t = 0 then 0 else 1)\<rparr>"


text \<open>A bus that answers the time of the read, modulo 256.\<close>

definition env_clock :: env where
  "env_clock = (env_const 0 0)\<lparr>read_byte := (\<lambda>t a r. Some (int (t mod 256)))\<rparr>"



text \<open>The exit flag set from time 47 on, just after the last flag read of a pass of two samples.\<close>

definition env_late :: env where
  "env_late = (env_const 1 2)\<lparr>flag_value := (\<lambda>t. if t < 47 then 0 else 1)\<rparr>"

section \<open>Observations on results and traces\<close>

fun is_ValueError :: "error + 'a \<Rightarrow> bool" where
  "is_ValueError (Inl (ValueError m)) = True"
| "is_ValueError r = False"

fun is_SensorInactive :: "error + 'a \<Rightarrow> bool" where
  "is_SensorInactive (Inl (SensorInactiveError s)) = True"
| "is_SensorInactive r = False"

text \<open>The world with the events \<open>es\<close> added to its trace.\<close>

definition emits :: "event list \<Rightarrow> world \<Rightarrow> world" where
  "emits es w = w\<lparr>trace := trace w @ es\<rparr>"

fun is_send :: "event \<Rightarrow> bool" where
  "is_send (PipeSend a m g) = True"
| "is_send e = False"

text \<open>The paths of the files opened, and of the files written to, in the order of the events.\<close>

fun opened :: "event list \<Rightarrow> string list" where
  "opened [] = []"
| "opened (FileOpen p # es) = p # opened es"
| "opened (e # es) = opened es"

fun written :: "event list \<Rightarrow> string list" where
  "written [] = []"
| "written (FileWrite p l # es) = p # written es"
| "written (e # es) = written es"

text \<open>The events that follow the first read of the exit flag that finds it set.\<close>

fun after_cancel :: "event list \<Rightarrow> event list" where
  "after_cancel [] = []"
| "after_cancel (FlagRead v # es) = (if v = 0 then after_cancel es else es)"
| "after_cancel (e # es) = after_cancel es"

text \<open>
  The value that a pair of bus bytes decodes to, and what a healthy run of the sampling code
  is expected to do from time \<open>t\<close> on, when the bus answers \<open>bus t a r\<close> to the read of
  register \<open>r\<close> at address \<open>a\<close> at time \<open>t\<close>.
\<close>

definition s16 :: "int \<Rightarrow> int \<Rightarrow> int" where
  "s16 lo hi = (let v = lo OR push_bit 8 hi in if v < 32768 then v else v - 65536)"

definition axis_value ::
  "env \<Rightarrow> (nat \<Rightarrow> int \<Rightarrow> int \<Rightarrow> int) \<Rightarrow> address \<Rightarrow> register \<Rightarrow> register \<Rightarrow> nat \<Rightarrow> int" where
  "axis_value E bus a rl rh t =
     s16 (bus t (addr_of E a) (reg_of E rl)) (bus (Suc t) (addr_of E a) (reg_of E rh))"

definition axis_events ::
  "env \<Rightarrow> (nat \<Rightarrow> int \<Rightarrow> int \<Rightarrow> int) \<Rightarrow> address \<Rightarrow> register \<Rightarrow> register \<Rightarrow> nat \<Rightarrow> event list" where
  "axis_events E bus a rl rh t =
     [BusRead (addr_of E a) (reg_of E rl) (bus t (addr_of E a) (reg_of E rl)),
      BusRead (addr_of E a) (reg_of E rh) (bus (Suc t) (addr_of E a) (reg_of E rh))]"

definition acc_reading :: "env \<Rightarrow> (nat \<Rightarrow> int \<Rightarrow> int \<Rightarrow> int) \<Rightarrow> nat \<Rightarrow> reading" where
  "acc_reading E bus t =
     \<lparr>x = axis_value E bus ACC_ADDRESS OUT_X_L_A OUT_X_H_A t,
      y = axis_value E bus ACC_ADDRESS OUT_Y_L_A OUT_Y_H_A (t + 2),
      z = axis_value E bus ACC_ADDRESS OUT_Z_L_A OUT_Z_H_A (t + 4)\<rparr>"

definition acc_events :: "env \<Rightarrow> (nat \<Rightarrow> int \<Rightarrow> int \<Rightarrow> int) \<Rightarrow> nat \<Rightarrow> event list" where
  "acc_events E bus t =
     axis_events E bus ACC_ADDRESS OUT_X_L_A OUT_X_H_A t @
     axis_events E bus ACC_ADDRESS OUT_Y_L_A OUT_Y_H_A (t + 2) @
     axis_events E bus ACC_ADDRESS OUT_Z_L_A OUT_Z_H_A (t + 4)"

definition mag_reading :: "env \<Rightarrow> (nat \<Rightarrow> int \<Rightarrow> int \<Rightarrow> int) \<Rightarrow> nat \<Rightarrow> reading" where
  "mag_reading E bus t =
     \<lparr>x = axis_value E bus MAG_ADDRESS OUT_X_L_M OUT_X_H_M t,
      y = axis_value E bus MAG_ADDRESS OUT_Y_L_M OUT_Y_H_M (t + 2),
      z = axis_value E bus MAG_ADDRESS OUT_Z_L_M OUT_Z_H_M (t + 4)\<rparr>"

definition mag_events :: "env \<Rightarrow> (nat \<Rightarrow> int \<Rightarrow> int \<Rightarrow> int) \<Rightarrow> nat \<Rightarrow> event list" where
  "mag_events E bus t =
     axis_events E bus MAG_ADDRESS OUT_X_L_M OUT_X_H_M t @
     axis_events E bus MAG_ADDRESS OUT_Y_L_M OUT_Y_H_M (t + 2) @
     axis_events E bus MAG_ADDRESS OUT_Z_L_M OUT_Z_H_M (t + 4)"

definition gyr_reading :: "env \<Rightarrow> (nat \<Rightarrow> int \<Rightarrow> int \<Rightarrow> int) \<Rightarrow> nat \<Rightarrow> reading" where
  "gyr_reading E bus t =
     \<lparr>x = axis_value E bus GYR_ADDRESS OUT_X_L_G OUT_X_H_G t,
      y = axis_value E bus GYR_ADDRESS OUT_Y_L_G OUT_Y_H_G (t + 2),
      z = axis_value E bus GYR_ADDRESS OUT_Z_L_G OUT_Z_H_G (t + 4)\<rparr>"

definition gyr_events :: "env \<Rightarrow> (nat \<Rightarrow> int \<Rightarrow> int \<Rightarrow> int) \<Rightarrow> nat \<Rightarrow> event list" where
  "gyr_events E bus t =
     axis_events E bus GYR_ADDRESS OUT_X_L_G OUT_X_H_G t @
     axis_events E bus GYR_ADDRESS OUT_Y_L_G OUT_Y_H_G (t + 2) @
     axis_events E bus GYR_ADDRESS OUT_Z_L_G OUT_Z_H_G (t + 4)"

text \<open>
  The 24 events of one sample that starts at time \<open>t\<close> and goes to the file \<open>path\<close>: the file
  is opened, the accelerometer, the magnetometer and the gyroscope are read, the line is
  written, the bundle is sent, the flag is read, the task sleeps, and the file is closed.
\<close>

definition sample_events ::
  "env \<Rightarrow> (nat \<Rightarrow> int \<Rightarrow> int \<Rightarrow> int) \<Rightarrow> int \<Rightarrow> string \<Rightarrow> nat \<Rightarrow> event list" where
  "sample_events E bus freq path t =
     [FileOpen path] @ acc_events E bus (t + 1) @ mag_events E bus (t + 7) @
     gyr_events E bus (t + 13) @
     [FileWrite path
        (file_output (acc_reading E bus (t + 1)) (mag_reading E bus (t + 7))
           (gyr_reading E bus (t + 13))),
      PipeSend (acc_reading E bus (t + 1)) (mag_reading E bus (t + 7)) (gyr_reading E bus (t + 13)),
      FlagRead (flag_value E (t + 21)), Sleep freq, FileClose path]"

text \<open>The events of \<open>k\<close> turns of the \<open>for\<close> loop that start at time \<open>t\<close> with the counter at \<open>n\<close>.\<close>

fun pass_events ::
  "env \<Rightarrow> (nat \<Rightarrow> int \<Rightarrow> int \<Rightarrow> int) \<Rightarrow> int \<Rightarrow> string \<Rightarrow> string \<Rightarrow> nat \<Rightarrow> int \<Rightarrow> nat \<Rightarrow> event list"
where
  "pass_events E bus freq dir file_name 0 n t = []"
| "pass_events E bus freq dir file_name (Suc k) n t =
     sample_events E bus freq (path_join dir (file_name @ ''_'' @ str_int n @ ''.txt'')) t @
     pass_events E bus freq dir file_name k (n + 1) (t + 24)"




section \<open>Basic facts\<close>

lemma now_emit: "now (emit e w) = Suc (now w)"
  by (simp add: now_def emit_def)

lemma emit_fields [simp]:
  "acc_active (emit e w) = acc_active w" "mag_active (emit e w) = mag_active w"
  "gyr_active (emit e w) = gyr_active w" "save_path (emit e w) = save_path w"
  "processes (emit e w) = processes w" "flags (emit e w) = flags w"
  "trace (emit e w) = trace w @ [e]"
  by (simp_all add: emit_def)

lemma combined_bounds:
  fixes lo hi :: int
  assumes "0 \<le> lo" "lo \<le> 255" "0 \<le> hi" "hi \<le> 255"
  shows "0 \<le> lo OR push_bit 8 hi" "lo OR push_bit 8 hi < 65536"
proof -
  have p: "push_bit 8 hi = hi * 256" by (simp add: push_bit_eq_mult)
  show "0 \<le> lo OR push_bit 8 hi" using assms by (simp add: p)
  have "lo OR push_bit 8 hi < 2 ^ 16"
    by (rule OR_upper) (use assms in \<open>simp_all add: p\<close>)
  then show "lo OR push_bit 8 hi < 65536" by simp
qed

lemma read_pair:
  assumes "\<forall>a r. read_byte E (now w) a r = Some lo"
    and "\<forall>a r. read_byte E (Suc (now w)) a r = Some hi"
  shows "bind_io (read_byte_data E a rl) (\<lambda>l. bind_io (read_byte_data E a rh) (\<lambda>h. g l h)) w
         = g lo hi (emit (BusRead a rh hi) (emit (BusRead a rl lo) w))"
  using assms by (simp add: bind_io_def read_byte_data_def now_emit)

section \<open>The loop without a rotation period\<close>

lemma while_loop_no_cut:
  "while_loop fuel E freq file_name None 0 w = (None, w)"
  by (induction fuel) simp_all

section \<open>Launching and ending\<close>

lemma fold_set_length: "length (fold (\<lambda>j fl. fl[j := (1::int)]) js fl) = length fl"
  by (induction js arbitrary: fl) simp_all

lemma fold_set_nth:
  "k < length fl \<Longrightarrow>
     fold (\<lambda>j fl. fl[j := (1::int)]) js fl ! k = (if k \<in> set js then 1 else fl ! k)"
  by (induction js arbitrary: fl) (auto simp: nth_list_update)

lemma fold_set_all: "fold (\<lambda>j fl. fl[j := (1::int)]) [0..<length fl] fl = map (\<lambda>_. 1) fl"
  by (rule nth_equalityI) (simp_all add: fold_set_length fold_set_nth)

lemma set_flags_flags:
  "flags (set_flags fs i w) = fold (\<lambda>j fl. fl[j := 1]) [i..<i + length fs] (flags w)"
  by (induction fs arbitrary: i w) (simp_all add: upt_rec)

lemma set_flags_trace:
  "trace (set_flags fs i w) = trace w @ map FlagSet [i..<i + length fs]"
  by (induction fs arbitrary: i w) (simp_all add: upt_rec)

lemma set_flags_processes: "processes (set_flags fs i w) = processes w"
  by (induction fs arbitrary: i w) simp_all

lemma join_all_trace:
  "trace (join_all ps i w) = trace w @
     concat (map (\<lambda>(j, p). [ProcJoin p None, Print (''IMU Process '' @ str_int (int j) @ '' joined'')])
       (enumerate i ps))"
  by (induction ps arbitrary: i w) simp_all

lemma join_all_flags: "flags (join_all ps i w) = flags w"
  by (induction ps arbitrary: i w) simp_all

lemma join_all_processes: "processes (join_all ps i w) = processes w"
  by (induction ps arbitrary: i w) simp_all

lemma launch_processes:
  "processes (fold take_measurements_process ps w) = processes w @ ps"
  by (induction ps arbitrary: w) (simp_all add: take_measurements_process_def)

lemma launch_flags:
  "flags (fold take_measurements_process ps w) = flags w @ map (\<lambda>_. 0) ps"
  by (induction ps arbitrary: w) (simp_all add: take_measurements_process_def)

lemma launch_trace:
  "trace (fold take_measurements_process ps w) = trace w @ map ProcStart ps"
  by (induction ps arbitrary: w) (simp_all add: take_measurements_process_def)

section \<open>A healthy sample\<close>

lemma emits_simps:
  "emits es (emits es' w) = emits (es' @ es) w"
  "emit e w = emits [e] w"
  "acc_active (emits es w) = acc_active w" "mag_active (emits es w) = mag_active w"
  "gyr_active (emits es w) = gyr_active w" "save_path (emits es w) = save_path w"
  "trace (emits es w) = trace w @ es"
  "now (emits es w) = now w + length es"
  by (simp_all add: emits_def emit_def now_def)

lemma read_byte_data_ok:
  assumes "\<And>t a r. read_byte E t a r = Some (bus t a r)"
  shows "read_byte_data E a r w = (Inr (bus (now w) a r), emits [BusRead a r (bus (now w) a r)] w)"
  by (simp add: read_byte_data_def assms emits_simps)

lemma readAccAxis_ok:
  assumes hb: "\<And>t a r. read_byte E t a r = Some (bus t a r)" and act: "acc_active w"
  shows "readAccAxis E 0 w = (Inr (axis_value E bus ACC_ADDRESS OUT_X_L_A OUT_X_H_A (now w)),
            emits (axis_events E bus ACC_ADDRESS OUT_X_L_A OUT_X_H_A (now w)) w)"
    and "readAccAxis E 1 w = (Inr (axis_value E bus ACC_ADDRESS OUT_Y_L_A OUT_Y_H_A (now w)),
            emits (axis_events E bus ACC_ADDRESS OUT_Y_L_A OUT_Y_H_A (now w)) w)"
    and "readAccAxis E 2 w = (Inr (axis_value E bus ACC_ADDRESS OUT_Z_L_A OUT_Z_H_A (now w)),
            emits (axis_events E bus ACC_ADDRESS OUT_Z_L_A OUT_Z_H_A (now w)) w)"
  using act
  by (simp_all add: readAccAxis_def bind_io_def read_byte_data_ok [OF hb] return_io_def
      axis_value_def axis_events_def s16_def Let_def emits_simps)

lemma readMagAxis_ok:
  assumes hb: "\<And>t a r. read_byte E t a r = Some (bus t a r)" and act: "mag_active w"
  shows "readMagAxis E 0 w = (Inr (axis_value E bus MAG_ADDRESS OUT_X_L_M OUT_X_H_M (now w)),
            emits (axis_events E bus MAG_ADDRESS OUT_X_L_M OUT_X_H_M (now w)) w)"
    and "readMagAxis E 1 w = (Inr (axis_value E bus MAG_ADDRESS OUT_Y_L_M OUT_Y_H_M (now w)),
            emits (axis_events E bus MAG_ADDRESS OUT_Y_L_M OUT_Y_H_M (now w)) w)"
    and "readMagAxis E 2 w = (Inr (axis_value E bus MAG_ADDRESS OUT_Z_L_M OUT_Z_H_M (now w)),
            emits (axis_events E bus MAG_ADDRESS OUT_Z_L_M OUT_Z_H_M (now w)) w)"
  using act
  by (simp_all add: readMagAxis_def bind_io_def read_byte_data_ok [OF hb] return_io_def
      axis_value_def axis_events_def s16_def Let_def emits_simps)

lemma readGyrAxis_ok:
  assumes hb: "\<And>t a r. read_byte E t a r = Some (bus t a r)" and act: "acc_active w"
  shows "readGyrAxis E 0 w = (Inr (axis_value E bus GYR_ADDRESS OUT_X_L_G OUT_X_H_G (now w)),
            emits (axis_events E bus GYR_ADDRESS OUT_X_L_G OUT_X_H_G (now w)) w)"
    and "readGyrAxis E 1 w = (Inr (axis_value E bus GYR_ADDRESS OUT_Y_L_G OUT_Y_H_G (now w)),
            emits (axis_events E bus GYR_ADDRESS OUT_Y_L_G OUT_Y_H_G (now w)) w)"
    and "readGyrAxis E 2 w = (Inr (axis_value E bus GYR_ADDRESS OUT_Z_L_G OUT_Z_H_G (now w)),
            emits (axis_events E bus GYR_ADDRESS OUT_Z_L_G OUT_Z_H_G (now w)) w)"
  using act
  by (simp_all add: readGyrAxis_def bind_io_def read_byte_data_ok [OF hb] return_io_def
      axis_value_def axis_events_def s16_def Let_def emits_simps)

lemma length_axis_events [simp]: "length (axis_events E bus a rl rh t) = 2"
  by (simp add: axis_events_def)

lemma readAcc_ok:
  assumes hb: "\<And>t a r. read_byte E t a r = Some (bus t a r)" and act: "acc_active w"
  shows "readAcc E w = (Inr (acc_reading E bus (now w)), emits (acc_events E bus (now w)) w)"
  using act
  by (simp add: readAcc_def bind_io_def readAccAxis_ok [OF hb] return_io_def
      acc_reading_def acc_events_def emits_simps)

lemma readMag_ok:
  assumes hb: "\<And>t a r. read_byte E t a r = Some (bus t a r)" and act: "mag_active w"
  shows "readMag E w = (Inr (mag_reading E bus (now w)), emits (mag_events E bus (now w)) w)"
  using act
  by (simp add: readMag_def bind_io_def readMagAxis_ok [OF hb] return_io_def
      mag_reading_def mag_events_def emits_simps)

lemma readGyr_ok:
  assumes hb: "\<And>t a r. read_byte E t a r = Some (bus t a r)" and act: "acc_active w"
  shows "readGyr E w = (Inr (gyr_reading E bus (now w)), emits (gyr_events E bus (now w)) w)"
  using act
  by (simp add: readGyr_def bind_io_def readGyrAxis_ok [OF hb] return_io_def
      gyr_reading_def gyr_events_def emits_simps)

lemma length_sensor_events [simp]:
  "length (acc_events E bus t) = 6" "length (mag_events E bus t) = 6"
  "length (gyr_events E bus t) = 6"
  by (simp_all add: acc_events_def mag_events_def gyr_events_def)

lemma take_sample_ok:
  assumes hb: "\<And>t a r. read_byte E t a r = Some (bus t a r)"
    and io: "\<And>t. io_ok E t"
    and act: "acc_active w" "mag_active w"
    and freq: "0 < freq"
  shows "take_sample E freq file_name n w =
           (Inr (flag_value E (now w + 21)),
            emits (sample_events E bus freq
                     (path_join (save_path w) (file_name @ ''_'' @ str_int n @ ''.txt'')) (now w)) w)"
  using act freq
  by (simp add: take_sample_def file_open_def io bind_io_def readAcc_ok [OF hb]
      readMag_ok [OF hb] readGyr_ok [OF hb] file_write_def file_close_def pipe_send_def read_flag_def
      sleep_def return_io_def sample_events_def Let_def add.commute emits_simps)

section \<open>A healthy pass of the loop\<close>

lemma length_sample_events [simp]: "length (sample_events E bus freq path t) = 24"
  by (simp add: sample_events_def)

lemma emits_Nil [simp]: "emits [] w = w"
  by (simp add: emits_def)

lemma for_loop_ok:
  assumes hb: "\<And>t a r. read_byte E t a r = Some (bus t a r)"
    and io: "\<And>t. io_ok E t"
    and act: "acc_active w" "mag_active w"
    and freq: "0 < freq"
  shows "for_loop E freq file_name k n lf w =
           (Inr (if k = 0 then lf else flag_value E (now w + 24 * (k - 1) + 21)),
            emits (pass_events E bus freq (save_path w) file_name k n (now w)) w)"
  using act
proof (induction k arbitrary: n lf w)
  case 0
  then show ?case by simp
next
  case (Suc k)
  let ?w' = "emits (sample_events E bus freq
                     (path_join (save_path w) (file_name @ ''_'' @ str_int n @ ''.txt'')) (now w)) w"
  have a: "acc_active ?w'" "mag_active ?w'" using Suc.prems by (simp_all add: emits_simps)
  have "for_loop E freq file_name (Suc k) n lf w =
          for_loop E freq file_name k (n + 1) (flag_value E (now w + 21)) ?w'"
    by (simp add: take_sample_ok [OF hb io Suc.prems freq])
  also have "\<dots> = (Inr (if k = 0 then flag_value E (now w + 21)
                          else flag_value E (now ?w' + 24 * (k - 1) + 21)),
                    emits (pass_events E bus freq (save_path ?w') file_name k (n + 1) (now ?w')) ?w')"
    by (rule Suc.IH [OF a])
  also have "\<dots> = (Inr (if Suc k = 0 then lf else flag_value E (now w + 24 * (Suc k - 1) + 21)),
            emits (pass_events E bus freq (save_path w) file_name (Suc k) n (now w)) w)"
    by (cases k) (simp_all add: emits_simps add.assoc)
  finally show ?case .
qed

lemma opened_append: "opened (es @ es') = opened es @ opened es'"
  by (induction es rule: opened.induct) simp_all

lemma written_append: "written (es @ es') = written es @ written es'"
  by (induction es rule: written.induct) simp_all

lemmas sample_unfold =
  sample_events_def acc_events_def mag_events_def gyr_events_def axis_events_def

lemma sample_observed:
  "opened (sample_events E bus freq p t) = [p]"
  "written (sample_events E bus freq p t) = [p]"
  "filter is_send (sample_events E bus freq p t) =
     [PipeSend (acc_reading E bus (t + 1)) (mag_reading E bus (t + 7)) (gyr_reading E bus (t + 13))]"
  "PipeClose \<notin> set (sample_events E bus freq p t)"
  by (simp_all add: sample_unfold)

lemma pass_opened:
  "opened (pass_events E bus freq dir file_name k n t) =
     map (\<lambda>i. path_join dir (file_name @ ''_'' @ str_int (n + int i) @ ''.txt'')) [0..<k]"
proof (induction k arbitrary: n t)
  case 0
  then show ?case by simp
next
  case (Suc k)
  show ?case
    by (simp only: pass_events.simps opened_append sample_observed Suc.IH map_upt_Suc)
      (simp add: add.assoc)
qed

lemma pass_written:
  "written (pass_events E bus freq dir file_name k n t) =
     map (\<lambda>i. path_join dir (file_name @ ''_'' @ str_int (n + int i) @ ''.txt'')) [0..<k]"
proof (induction k arbitrary: n t)
  case 0
  then show ?case by simp
next
  case (Suc k)
  show ?case
    by (simp only: pass_events.simps written_append sample_observed Suc.IH map_upt_Suc)
      (simp add: add.assoc)
qed

lemma pass_sends: "length (filter is_send (pass_events E bus freq dir file_name k n t)) = k"
  by (induction k arbitrary: n t) (simp_all add: sample_observed)

lemma pass_no_close: "PipeClose \<notin> set (pass_events E bus freq dir file_name k n t)"
  by (induction k arbitrary: n t) (simp_all add: sample_observed)

lemma env_cancel_facts:
  "read_byte env_cancel t a r = Some (if even t then 1 else 2)"
  "io_ok env_cancel t"
  "flag_value env_cancel t = (if t = 0 then 0 else 1)"
  by (simp_all add: env_cancel_def env_const_def)

lemma active_world_facts:
  "acc_active active_world" "mag_active active_world" "gyr_active active_world"
  "save_path active_world = ''IMU_Data''" "trace active_world = []" "now active_world = 0"
  by (simp_all add: active_world_def init_world_def now_def)

section \<open>Decimal digits\<close>

lemma digit_chars:
  "char_of (48::nat) = CHR ''0''" "char_of (49::nat) = CHR ''1''" "char_of (50::nat) = CHR ''2''"
  "char_of (51::nat) = CHR ''3''" "char_of (52::nat) = CHR ''4''" "char_of (53::nat) = CHR ''5''"
  "char_of (54::nat) = CHR ''6''" "char_of (55::nat) = CHR ''7''" "char_of (56::nat) = CHR ''8''"
  "char_of (57::nat) = CHR ''9''"
  by (simp_all add: char_of_def bit_iff_odd drop_bit_eq_div)

lemma digit_no_slash: "n < 10 \<Longrightarrow> char_of (48 + n) \<noteq> CHR ''/''" for n :: nat
proof -
  assume "n < 10"
  then consider "n = 0" | "n = 1" | "n = 2" | "n = 3" | "n = 4" | "n = 5" | "n = 6"
    | "n = 7" | "n = 8" | "n = 9" by atomize_elim arith
  then show ?thesis by cases (simp_all add: digit_chars)
qed

lemma str_nat_no_slash: "CHR ''/'' \<notin> set (str_nat n)"
proof (induction n rule: str_nat.induct)
  case (1 n)
  show ?case
  proof (cases "n < 10")
    case True
    then show ?thesis using digit_no_slash [of n] by (subst str_nat.simps) simp
  next
    case False
    then show ?thesis using 1 digit_no_slash [of "n mod 10"]
      by (subst str_nat.simps) simp
  qed
qed

lemma str_int_no_slash: "CHR ''/'' \<notin> set (str_int i)"
  by (simp add: str_int_def str_nat_no_slash)

lemma split_path_plain: "CHR ''/'' \<notin> set q \<Longrightarrow> split_path q = [q]"
  by (induction q) auto

lemma path_join_plain:
  assumes "CHR ''/'' \<notin> set q" "q \<noteq> []" "q \<noteq> ''.''"
  shows "path_join p q = p @ ''/'' @ q"
proof -
  from assms(1,2) have "hd q \<noteq> CHR ''/''" by (cases q) auto
  with assms(2) have "path_root q = []" by (cases q) (auto simp: path_root_def)
  with assms show ?thesis by (simp add: path_join_def path_parts_def split_path_plain)
qed

lemma path_join_numbered:
  "CHR ''/'' \<notin> set name \<Longrightarrow>
     path_join p (name @ ''_'' @ str_int n @ ''.txt'') = p @ ''/'' @ name @ ''_'' @ str_int n @ ''.txt''"
  by (rule path_join_plain) (auto simp: str_int_no_slash)

lemma path_join_imu:
  "path_join p (CHR ''i'' # CHR ''m'' # CHR ''u'' # CHR ''_'' # str_int n @ ''.txt'') =
     p @ ''/imu_'' @ str_int n @ ''.txt''"
  using path_join_numbered [of "''imu''" p n] by simp

lemma path_join_imu0: "path_join ''IMU_Data'' ''imu_0.txt'' = ''IMU_Data/imu_0.txt''"
  by (simp add: path_join_def path_parts_def path_root_def)

lemma str_int_examples:
  "str_int 513 = ''513''" "str_int 1027 = ''1027''" "str_int 1541 = ''1541''"
  "str_int 2055 = ''2055''" "str_int 2569 = ''2569''" "str_int 3083 = ''3083''"
  "str_int 3597 = ''3597''" "str_int 4111 = ''4111''" "str_int 4625 = ''4625''"
  "str_int 0 = ''0''"
  by (simp_all add: str_int_def str_nat.simps digit_chars)

section \<open>Closing the pipe\<close>













lemma pass_length: "length (pass_events E bus freq dir file_name k n t) = 24 * k"
  by (induction k arbitrary: n t) simp_all

section \<open>Cancellation\<close>

lemma after_cancel_sample:
  "after_cancel (sample_events E bus freq p t @ rest) =
     (if flag_value E (t + 21) = 0 then after_cancel rest else [Sleep freq, FileClose p] @ rest)"
  by (simp add: sample_unfold)

lemma pass_all_zero:
  assumes mono: "\<And>t t'. t \<le> t' \<Longrightarrow> flag_value E t \<noteq> 0 \<Longrightarrow> flag_value E t' \<noteq> 0"
  shows "0 < k \<Longrightarrow> flag_value E (t + 24 * (k - 1) + 21) = 0 \<Longrightarrow>
         after_cancel (pass_events E bus freq dir file_name k n t @ rest) = after_cancel rest"
proof (induction k arbitrary: n t)
  case 0
  then show ?case by simp
next
  case (Suc k)
  have z: "flag_value E (t + 21) = 0"
    using mono [of "t + 21" "t + 24 * (Suc k - 1) + 21"] Suc.prems(2) by auto
  show ?case
  proof (cases k)
    case 0
    with z show ?thesis by (simp add: after_cancel_sample)
  next
    case (Suc j)
    have "flag_value E (t + 24 + 24 * (k - 1) + 21) = 0"
      using Suc.prems(2) Suc by (simp add: add.assoc)
    with Suc.IH [of "t + 24" "n + 1"] Suc have
      "after_cancel (pass_events E bus freq dir file_name k (n + 1) (t + 24) @ rest)
         = after_cancel rest" by simp
    with z show ?thesis by (simp add: after_cancel_sample)
  qed
qed

lemma pass_bound:
  "0 < k \<Longrightarrow> flag_value E (t + 24 * (k - 1) + 21) \<noteq> 0 \<Longrightarrow>
     length (filter is_send (after_cancel (pass_events E bus freq dir file_name k n t))) < k"
proof (induction k arbitrary: n t)
  case 0
  then show ?case by simp
next
  case (Suc k)
  show ?case
  proof (cases "flag_value E (t + 21) = 0")
    case False
    then show ?thesis by (simp add: after_cancel_sample pass_sends)
  next
    case True
    with Suc.prems(2) have k: "0 < k" by (cases k) auto
    then have "flag_value E (t + 24 + 24 * (k - 1) + 21) \<noteq> 0"
      using Suc.prems(2) by (cases k) (simp_all add: add.assoc)
    from Suc.IH [OF k this, of "n + 1"] True show ?thesis
      by (simp add: after_cancel_sample)
  qed
qed

lemma filter_drop_le: "length (filter P (drop d xs)) \<le> length (filter P xs)"
proof -
  have "filter P xs = filter P (take d xs) @ filter P (drop d xs)"
    by (metis append_take_drop_id filter_append)
  then show ?thesis by (metis le_add2 length_append)
qed

lemma sample_sends_early:
  assumes "20 < d"
  shows "filter is_send (drop d (sample_events E bus freq p t)) = []"
proof -
  have "set (drop d (sample_events E bus freq p t)) \<subseteq> set (drop 21 (sample_events E bus freq p t))"
    using assms by (intro set_drop_subset_set_drop) simp
  moreover have "drop 21 (sample_events E bus freq p t) =
      [FlagRead (flag_value E (t + 21)), Sleep freq, FileClose p]"
    by (simp add: sample_unfold)
  ultimately show ?thesis by (auto simp: filter_empty_conv)
qed

lemma pass_sends_early:
  "0 < k \<Longrightarrow> 24 * (k - 1) + 20 < d \<Longrightarrow>
     filter is_send (drop d (pass_events E bus freq dir file_name k n t)) = []"
proof (induction k arbitrary: n t d)
  case 0
  then show ?case by simp
next
  case (Suc k)
  show ?case
  proof (cases k)
    case 0
    with Suc.prems show ?thesis by (simp add: sample_sends_early)
  next
    case (Suc j)
    with Suc.prems have d: "24 \<le> d" "24 * (k - 1) + 20 < d - 24" by simp_all
    from Suc have k: "0 < k" by simp
    from Suc.IH [OF k d(2)] d(1) show ?thesis by simp
  qed
qed

lemma while_ok:
  assumes hb: "\<And>t a r. read_byte E t a r = Some (bus t a r)"
    and io: "\<And>t. io_ok E t"
    and freq: "0 < freq" and c: "0 < c"
    and mono: "\<forall>t t'. t \<le> t' \<longrightarrow> flag_value E t \<noteq> 0 \<longrightarrow> flag_value E t' \<noteq> 0"
    and ev: "flag_value E T \<noteq> 0"
  shows "acc_active w \<Longrightarrow> mag_active w \<Longrightarrow> filter is_send (drop T (trace w)) = [] \<Longrightarrow>
         \<exists>fuel es. while_loop fuel E freq file_name (Some c) 0 w = (Some (Inr ()), emits es w) \<and>
            PipeClose \<notin> set es \<and>
            length (filter is_send (after_cancel es)) < nat (c * freq) \<and>
            length (filter is_send (drop T (trace w @ es))) \<le> nat (c * freq)"
proof (induction "T - now w" arbitrary: w rule: less_induct)
  case less
  have mono': "\<And>t t'. t \<le> t' \<Longrightarrow> flag_value E t \<noteq> 0 \<Longrightarrow> flag_value E t' \<noteq> 0"
    using mono by blast
  let ?k = "nat (c * freq)"
  have k: "0 < ?k" using freq c by simp
  let ?P = "pass_events E bus freq (save_path w) file_name ?k 0 (now w)"
  let ?lf = "flag_value E (now w + 24 * (?k - 1) + 21)"
  let ?w' = "emits ?P w"
  have pass: "for_loop E freq file_name ?k 0 0 w = (Inr ?lf, ?w')"
    using for_loop_ok [OF hb io less.prems(1,2) freq, of file_name ?k 0 0] k by simp
  have lenP: "length ?P = 24 * ?k"
    by (simp add: pass_length)
  show ?case
  proof (cases "?lf = 0")
    case False
    have "while_loop (Suc 0) E freq file_name (Some c) 0 w = (Some (Inr ()), ?w')"
      using pass False by simp
    moreover have "length (filter is_send (after_cancel ?P)) < ?k"
      by (rule pass_bound [OF k False])
    moreover have "length (filter is_send (drop T (trace w @ ?P))) \<le> ?k"
      using filter_drop_le [of is_send "T - now w" ?P] less.prems(3)
      by (simp add: pass_sends now_def)
    ultimately show ?thesis using pass_no_close by blast
  next
    case True
    have late: "T > now w + 24 * (?k - 1) + 21"
    proof (rule ccontr)
      assume "\<not> ?thesis"
      then have "T \<le> now w + 24 * (?k - 1) + 21" by simp
      from mono' [OF this ev] True show False by simp
    qed
    then have dec: "T - now ?w' < T - now w" using k by (simp add: emits_simps lenP)
    have a: "acc_active ?w'" "mag_active ?w'" using less.prems by (simp_all add: emits_simps)
    have "filter is_send (drop (T - now w) ?P) = []"
      using late by (intro pass_sends_early [OF k]) simp
    then have inv: "filter is_send (drop T (trace ?w')) = []"
      using less.prems(3) by (simp add: emits_simps now_def)
    from less.hyps [OF dec a inv] obtain fuel es where
      r: "while_loop fuel E freq file_name (Some c) 0 ?w' = (Some (Inr ()), emits es ?w')"
      and nc: "PipeClose \<notin> set es"
      and b: "length (filter is_send (after_cancel es)) < ?k"
      and b2: "length (filter is_send (drop T (trace ?w' @ es))) \<le> ?k" by blast
    have "while_loop (Suc fuel) E freq file_name (Some c) 0 w = (Some (Inr ()), emits (?P @ es) w)"
      using pass True r by (simp add: emits_simps)
    moreover have "after_cancel (?P @ es) = after_cancel es"
      by (rule pass_all_zero [OF mono' k True])
    moreover have "PipeClose \<notin> set (?P @ es)" using nc pass_no_close by simp
    moreover have "length (filter is_send (drop T (trace w @ ?P @ es))) \<le> ?k"
      using b2 by (simp add: emits_simps)
    ultimately show ?thesis using b by metis
  qed
qed

section \<open>Up to the first failure\<close>








lemma take_sample_open_fails:
  assumes "\<not> io_ok E (now w)"
  shows "take_sample E freq file_name n w = (Inl OSError, w)"
  using assms by (simp add: take_sample_def file_open_def)















section \<open>Concrete runs\<close>



lemma env_late_facts:
  "read_byte env_late t a r = Some (if even t then 1 else 2)"
  "io_ok env_late t"
  "flag_value env_late t = (if t < 47 then 0 else 1)"
  by (simp_all add: env_late_def env_const_def)

lemma late_run:
  "take_measurements (Suc (Suc 0)) env_late 1 ''imu'' (Some 2) active_world =
     (Some (Inr ()),
      emits ([FlagRead 0] @
             pass_events env_late (\<lambda>t a r. if even t then 1 else 2) 1 ''IMU_Data'' ''imu'' 2 0 1 @
             pass_events env_late (\<lambda>t a r. if even t then 1 else 2) 1 ''IMU_Data'' ''imu'' 2 0 49 @
             [PipeClose]) active_world)"
  by (simp add: take_measurements_def try_body_def read_flag_def env_late_facts
      active_world_facts emits_simps pass_length
      for_loop_ok [where bus = "\<lambda>t a r. if even t then 1 else 2" and E = env_late])

lemma late_sends:
  "length (filter is_send (drop 47
     (trace (snd (take_measurements 2 env_late 1 ''imu'' (Some 2) active_world))))) = 2"
proof -
  let ?bus = "\<lambda>(t::nat) (a::int) (r::int). if even t then 1 else (2::int)"
  let ?P1 = "pass_events env_late ?bus 1 ''IMU_Data'' ''imu'' 2 0 1"
  have two: "(2::nat) = Suc (Suc 0)" by simp
  show ?thesis
    unfolding two late_run
    by (simp add: emits_simps active_world_facts sample_sends_early sample_observed)
qed




section \<open>Decoding of an axis read\<close>

text \<open>
  Claim C1. Whichever of \<open>readAccAxis\<close>, \<open>readMagAxis\<close>, \<open>readGyrAxis\<close> is called on an
  active sensor with axis 0, 1 or 2: if the bus answers the byte \<open>lo\<close> and then the byte
  \<open>hi\<close>, both in 0..255, the read returns \<open>d\<close>, where \<open>v = lo | (hi << 8)\<close> lies in
  0..65535 and \<open>d = v\<close> if \<open>v < 32768\<close>, else \<open>v - 65536\<close>. So \<open>d\<close> lies in -32768..32767,
  and 32767, 32768, 65535, 0 decode to 32767, -32768, -1, 0.
\<close>

theorem axis_read_decodes:
  fixes lo hi :: int
  assumes f: "f = readAccAxis \<or> f = readMagAxis \<or> f = readGyrAxis"
    and act: "acc_active w" "mag_active w"
    and ax: "axis = 0 \<or> axis = 1 \<or> axis = 2"
    and b: "0 \<le> lo" "lo \<le> 255" "0 \<le> hi" "hi \<le> 255"
    and r1: "\<forall>a r. read_byte E (now w) a r = Some lo"
    and r2: "\<forall>a r. read_byte E (Suc (now w)) a r = Some hi"
  shows "let v = lo OR push_bit 8 hi; d = (if v < 32768 then v else v - 65536) in
           fst (f E axis w) = Inr d \<and> 0 \<le> v \<and> v < 65536 \<and> - 32768 \<le> d \<and> d \<le> 32767 \<and>
           (v = 32767 \<longrightarrow> d = 32767) \<and> (v = 32768 \<longrightarrow> d = - 32768) \<and>
           (v = 65535 \<longrightarrow> d = - 1) \<and> (v = 0 \<longrightarrow> d = 0)"
proof -
  define v where "v = lo OR push_bit 8 hi"
  define d where "d = (if v < 32768 then v else v - 65536)"
  have res: "fst (f E axis w) = Inr d"
    using f ax act
    by (auto simp: readAccAxis_def readMagAxis_def readGyrAxis_def read_pair [OF r1 r2]
        return_io_def Let_def v_def d_def)
  have vb: "0 \<le> v" "v < 65536"
    using combined_bounds [OF b] by (simp_all add: v_def)
  then have "- 32768 \<le> d" "d \<le> 32767" by (auto simp: d_def)
  with res vb show ?thesis
    unfolding Let_def v_def [symmetric] d_def [symmetric] by (simp add: d_def)
qed

theorem axis_read_decodes_witness:
  "fst (readGyrAxis (env_const 0 128) 2 active_world) = Inr (- 32768)"
  using axis_read_decodes [of readGyrAxis active_world 2 0 128 "env_const 0 128"]
  by (simp add: active_world_def init_world_def env_const_def now_def)

section \<open>Configuration writes\<close>

text \<open>
  Claim C10. For every address, register and value, a configuration write through
  \<open>writeReg\<close> that the bus accepts performs that one bus write and returns -1.
\<close>

theorem writeReg_returns_minus_one:
  "write_ok E (now w) \<Longrightarrow> writeReg E a r v w = (Inr (- 1), emit (BusWrite a r v) w)"
  by (simp add: writeReg_def write_byte_data_def bind_io_def return_io_def)

theorem writeReg_returns_minus_one_witness:
  "writeReg (env_const 0 0) 30 32 103 active_world
     = (Inr (- 1), emit (BusWrite 30 32 103) active_world)"
  using writeReg_returns_minus_one [of "env_const 0 0" active_world 30 32 103]
  by (simp add: env_const_def)

section \<open>Inactive sensors and invalid axes\<close>

text \<open>
  Claim C4 says that a read of an inactive sensor fails with a \<open>SensorInactiveError\<close> that
  names that sensor, and depends on that sensor's flag only. Evaluating IMU.py: right
  after \<open>__init__\<close>, where every sensor is inactive, the magnetometer and the gyroscope reads
  raise the error with \<open>sensor = 'Accelerometer'\<close>; and with the accelerometer flag set and the
  gyroscope flag clear, \<open>readGyrAxis\<close> raises nothing and returns a value.
\<close>

theorem inactive_read_names_accelerometer:
  "fst (readMagAxis E axis (init_world p)) = Inl (SensorInactiveError ''Accelerometer'') \<and>
   fst (readGyrAxis E axis (init_world p)) = Inl (SensorInactiveError ''Accelerometer'') \<and>
   fst (readGyrAxis (env_const 1 2) 0 ((init_world p)\<lparr>acc_active := True\<rparr>)) = Inr 513"
  by (simp add: readMagAxis_def readGyrAxis_def init_world_def env_const_def
      bind_io_def read_byte_data_def now_def emit_def return_io_def)

text \<open>
  Claim C5 says that an axis outside 0, 1, 2 gives the invalid-argument error whatever the
  active flag. It does not: on an inactive accelerometer, \<open>readAccAxis(5)\<close> raises
  \<open>SensorInactiveError\<close>, because the flag is tested first.
\<close>

theorem invalid_axis_inactive_counterexample:
  "\<not> is_ValueError (fst (readAccAxis (env_const 0 0) 5 (init_world ''IMU_Data'')))"
  by (simp add: readAccAxis_def init_world_def)


text \<open>
  Claim C5, amended. For an axis outside 0, 1, 2 the read fails and leaves the state as
  it was, so the bus is not touched: with \<open>ValueError\<close> when the sensor is active, and with
  \<open>SensorInactiveError\<close> when it is inactive, because the flag is tested before the axis.
  This holds for the accelerometer and the magnetometer in every state, and for the
  gyroscope in the states where its flag and the accelerometer's agree.
\<close>

theorem invalid_axis_error:
  assumes "axis \<noteq> 0" "axis \<noteq> 1" "axis \<noteq> 2"
  shows "(acc_active w \<longrightarrow> readAccAxis E axis w = (Inl (ValueError axis_msg), w)) \<and>
         (mag_active w \<longrightarrow> readMagAxis E axis w = (Inl (ValueError axis_msg), w)) \<and>
         (gyr_active w \<and> acc_active w \<longrightarrow> readGyrAxis E axis w = (Inl (ValueError axis_msg), w)) \<and>
         (\<not> acc_active w \<longrightarrow>
            is_SensorInactive (fst (readAccAxis E axis w)) \<and> snd (readAccAxis E axis w) = w) \<and>
         (\<not> mag_active w \<longrightarrow>
            is_SensorInactive (fst (readMagAxis E axis w)) \<and> snd (readMagAxis E axis w) = w) \<and>
         (\<not> gyr_active w \<and> \<not> acc_active w \<longrightarrow>
            is_SensorInactive (fst (readGyrAxis E axis w)) \<and> snd (readGyrAxis E axis w) = w)"
  using assms by (simp add: readAccAxis_def readMagAxis_def readGyrAxis_def)

theorem invalid_axis_error_witness:
  "readAccAxis (env_const 0 0) 5 active_world = (Inl (ValueError axis_msg), active_world) \<and>
   readMagAxis (env_const 0 0) 5 active_world = (Inl (ValueError axis_msg), active_world) \<and>
   readGyrAxis (env_const 0 0) 5 active_world = (Inl (ValueError axis_msg), active_world) \<and>
   is_SensorInactive (fst (readAccAxis (env_const 0 0) (- 1) (init_world ''IMU_Data''))) \<and>
   snd (readAccAxis (env_const 0 0) (- 1) (init_world ''IMU_Data'')) = init_world ''IMU_Data'' \<and>
   is_SensorInactive (fst (readMagAxis (env_const 0 0) (- 1) (init_world ''IMU_Data''))) \<and>
   snd (readMagAxis (env_const 0 0) (- 1) (init_world ''IMU_Data'')) = init_world ''IMU_Data'' \<and>
   is_SensorInactive (fst (readGyrAxis (env_const 0 0) (- 1) (init_world ''IMU_Data''))) \<and>
   snd (readGyrAxis (env_const 0 0) (- 1) (init_world ''IMU_Data'')) = init_world ''IMU_Data''"
  using invalid_axis_error [of 5 active_world "env_const 0 0"]
    invalid_axis_error [of "- 1" "init_world ''IMU_Data''" "env_const 0 0"]
  by (simp add: active_world_def init_world_def)

section \<open>A task without a rotation period\<close>

text \<open>
  Claim C3 says that a task started without a rotation period samples at the configured
  frequency. Evaluating IMU.py with \<open>cut = None\<close> and the exit flag at 0: the body of the
  \<open>while\<close> loop does nothing, so for every amount of fuel the loop is still running when
  the fuel is spent, and the only event of the task is the first read of the flag: no
  sample, no file, no sleep, and the flag is never read again.
\<close>

theorem no_rotation_never_samples:
  "flag_value E (now w) = 0 \<Longrightarrow>
     take_measurements fuel E freq file_name None w = (None, emit (FlagRead 0) w)"
  by (simp add: take_measurements_def try_body_def read_flag_def while_loop_no_cut)

theorem no_rotation_never_samples_witness:
  "take_measurements 1000 (env_const 0 0) 5 ''imu'' None active_world
     = (None, emit (FlagRead 0) active_world)"
  using no_rotation_never_samples [of "env_const 0 0" active_world 1000 5 "''imu''"]
  by (simp add: env_const_def)

section \<open>Ending the processes\<close>

text \<open>
  Claim C8. \<open>end_measurements_processes\<close> first sets every tracked flag to 1, in the order of
  the list, then joins every tracked process exactly once, in the order of the list, with no
  timeout, and prints the index of each after its join; it does nothing else. The list of
  processes is the list of launches in launch order, so after launching \<open>ps\<close> from a fresh
  object the joins are those of \<open>ps\<close>, in that order.
\<close>

theorem shutdown_sets_then_joins_in_launch_order:
  "trace (end_measurements_processes w) =
     trace w @ map FlagSet [0..<length (flags w)] @
     concat (map (\<lambda>(i, p). [ProcJoin p None, Print (''IMU Process '' @ str_int (int i) @ '' joined'')])
       (enumerate 0 (processes w))) \<and>
   flags (end_measurements_processes w) = map (\<lambda>_. 1) (flags w) \<and>
   processes (end_measurements_processes w) = processes w \<and>
   trace (end_measurements_processes (fold take_measurements_process ps (init_world d))) =
     map ProcStart ps @ map FlagSet [0..<length ps] @
     concat (map (\<lambda>(i, p). [ProcJoin p None, Print (''IMU Process '' @ str_int (int i) @ '' joined'')])
       (enumerate 0 ps))"
  by (simp add: end_measurements_processes_def join_all_trace join_all_flags join_all_processes
      set_flags_trace set_flags_flags set_flags_processes fold_set_all launch_processes launch_flags
      launch_trace init_world_def)

section \<open>Files and samples\<close>

text \<open>
  Claim C2 says that, with a rotation period, all \<open>rotationPeriod * frequency\<close> samples of a
  segment go to one file, and that the file index grows by one per segment. Evaluating IMU.py
  with \<open>freq = 10\<close>, \<open>cut = 2\<close>, on a run that is cancelled during its first pass: the file
  is opened inside the \<open>for\<close> loop and \<open>n\<close> grows at every turn, so the 20 samples go to 20
  files, \<open>imu_0.txt\<close> to \<open>imu_19.txt\<close>, one line each; \<open>imu_1.txt\<close> is opened after a single
  sample.
\<close>

theorem one_file_per_sample:
  "opened (trace (snd (take_measurements 1 env_cancel 10 ''imu'' (Some 2) active_world)))
     = map (\<lambda>i. ''IMU_Data/imu_'' @ str_int (int i) @ ''.txt'') [0..<20] \<and>
   written (trace (snd (take_measurements 1 env_cancel 10 ''imu'' (Some 2) active_world)))
     = map (\<lambda>i. ''IMU_Data/imu_'' @ str_int (int i) @ ''.txt'') [0..<20] \<and>
   length (filter is_send
     (trace (snd (take_measurements 1 env_cancel 10 ''imu'' (Some 2) active_world)))) = 20"
proof -
  let ?bus = "\<lambda>(t::nat) (a::int) (r::int). if even t then 1 else (2::int)"
  have run: "take_measurements (Suc 0) env_cancel 10 ''imu'' (Some 2) active_world =
      (Some (Inr ()),
       emits ([FlagRead 0] @ pass_events env_cancel ?bus 10 ''IMU_Data'' ''imu'' 20 0 1 @ [PipeClose])
         active_world)"
    by (simp add: take_measurements_def try_body_def read_flag_def env_cancel_facts
        active_world_facts emits_simps
        for_loop_ok [where bus = ?bus and E = env_cancel])
  show ?thesis
    by (simp add: run emits_simps active_world_facts opened_append written_append
        pass_opened pass_written pass_sends path_join_imu)
qed

section \<open>One sample\<close>

text \<open>
  Claim C9. In a sample taken with the sensors active and no failure, after the file is
  opened the bus is read for the accelerometer, then the magnetometer, then the gyroscope
  (each X, Y, Z, low byte before high byte); the line written to the file is
  \<open>Acc: x y z Gyr: x y z Mag: x y z\<close> and a newline, with the decoded integers in the order
  accelerometer, gyroscope, magnetometer; and the value sent on the pipe is the triple
  (accelerometer, magnetometer, gyroscope), each with its fields x, y, z. Then the exit
  flag is read, the task sleeps and the file is closed.
\<close>

theorem sample_order_and_format:
  assumes hb: "\<forall>t a r. read_byte E t a r = Some (bus t a r)"
    and io: "\<forall>t. io_ok E t"
    and act: "acc_active w" "mag_active w"
    and freq: "0 < freq"
  shows "let t = now w; A = addr_of E; R = reg_of E;
             b = (\<lambda>i a r. bus (t + i) (A a) (R r));
             rd = (\<lambda>i a r. BusRead (A a) (R r) (b i a r));
             acc = \<lparr>x = s16 (b 1 ACC_ADDRESS OUT_X_L_A) (b 2 ACC_ADDRESS OUT_X_H_A),
                    y = s16 (b 3 ACC_ADDRESS OUT_Y_L_A) (b 4 ACC_ADDRESS OUT_Y_H_A),
                    z = s16 (b 5 ACC_ADDRESS OUT_Z_L_A) (b 6 ACC_ADDRESS OUT_Z_H_A)\<rparr>;
             mag = \<lparr>x = s16 (b 7 MAG_ADDRESS OUT_X_L_M) (b 8 MAG_ADDRESS OUT_X_H_M),
                    y = s16 (b 9 MAG_ADDRESS OUT_Y_L_M) (b 10 MAG_ADDRESS OUT_Y_H_M),
                    z = s16 (b 11 MAG_ADDRESS OUT_Z_L_M) (b 12 MAG_ADDRESS OUT_Z_H_M)\<rparr>;
             gyr = \<lparr>x = s16 (b 13 GYR_ADDRESS OUT_X_L_G) (b 14 GYR_ADDRESS OUT_X_H_G),
                    y = s16 (b 15 GYR_ADDRESS OUT_Y_L_G) (b 16 GYR_ADDRESS OUT_Y_H_G),
                    z = s16 (b 17 GYR_ADDRESS OUT_Z_L_G) (b 18 GYR_ADDRESS OUT_Z_H_G)\<rparr>;
             p = path_join (save_path w) (file_name @ ''_'' @ str_int n @ ''.txt'')
         in trace (snd (take_sample E freq file_name n w)) = trace w @
              [FileOpen p,
               rd 1 ACC_ADDRESS OUT_X_L_A, rd 2 ACC_ADDRESS OUT_X_H_A,
               rd 3 ACC_ADDRESS OUT_Y_L_A, rd 4 ACC_ADDRESS OUT_Y_H_A,
               rd 5 ACC_ADDRESS OUT_Z_L_A, rd 6 ACC_ADDRESS OUT_Z_H_A,
               rd 7 MAG_ADDRESS OUT_X_L_M, rd 8 MAG_ADDRESS OUT_X_H_M,
               rd 9 MAG_ADDRESS OUT_Y_L_M, rd 10 MAG_ADDRESS OUT_Y_H_M,
               rd 11 MAG_ADDRESS OUT_Z_L_M, rd 12 MAG_ADDRESS OUT_Z_H_M,
               rd 13 GYR_ADDRESS OUT_X_L_G, rd 14 GYR_ADDRESS OUT_X_H_G,
               rd 15 GYR_ADDRESS OUT_Y_L_G, rd 16 GYR_ADDRESS OUT_Y_H_G,
               rd 17 GYR_ADDRESS OUT_Z_L_G, rd 18 GYR_ADDRESS OUT_Z_H_G,
               FileWrite p
                 (''Acc: '' @ str_int (x acc) @ '' '' @ str_int (y acc) @ '' '' @ str_int (z acc) @
                  '' Gyr: '' @ str_int (x gyr) @ '' '' @ str_int (y gyr) @ '' '' @ str_int (z gyr) @
                  '' Mag: '' @ str_int (x mag) @ '' '' @ str_int (y mag) @ '' '' @ str_int (z mag) @
                  [CHR 0x0A]),
               PipeSend acc mag gyr,
               FlagRead (flag_value E (t + 21)), Sleep freq, FileClose p]"
proof -
  have hb': "\<And>t a r. read_byte E t a r = Some (bus t a r)" and io': "\<And>t. io_ok E t"
    using hb io by simp_all
  show ?thesis
    unfolding Let_def take_sample_ok [OF hb' io' act freq]
    by (simp add: emits_simps sample_unfold acc_reading_def mag_reading_def gyr_reading_def
        axis_value_def file_output_def numeral_eq_Suc add.commute)
qed

theorem sample_order_and_format_witness:
  "trace (snd (take_sample env_clock 5 ''imu'' 0 active_world)) =
     [FileOpen ''IMU_Data/imu_0.txt'',
      BusRead 30 40 1, BusRead 30 40 2, BusRead 30 40 3, BusRead 30 40 4,
      BusRead 30 40 5, BusRead 30 40 6, BusRead 30 40 7, BusRead 30 40 8,
      BusRead 30 40 9, BusRead 30 40 10, BusRead 30 40 11, BusRead 30 40 12,
      BusRead 106 40 13, BusRead 106 40 14, BusRead 106 40 15, BusRead 106 40 16,
      BusRead 106 40 17, BusRead 106 40 18,
      FileWrite ''IMU_Data/imu_0.txt''
        (''Acc: 513 1027 1541 Gyr: 3597 4111 4625 Mag: 2055 2569 3083'' @ [CHR 0x0A]),
      PipeSend \<lparr>x = 513, y = 1027, z = 1541\<rparr> \<lparr>x = 2055, y = 2569, z = 3083\<rparr>
        \<lparr>x = 3597, y = 4111, z = 4625\<rparr>,
      FlagRead 0, Sleep 5, FileClose ''IMU_Data/imu_0.txt'']"
  using sample_order_and_format [of env_clock "\<lambda>t a r. int (t mod 256)" active_world 5 "''imu''" 0]
  by (simp add: env_clock_def env_const_def active_world_facts Let_def s16_def path_join_imu0
      str_int_examples)

section \<open>Errors in the task\<close>



section \<open>Cancellation of a task\<close>

text \<open>
  Claim C6 says that the exit flag is tested before each next sample, so that a task stops
  sampling within one period of the request. It does not: the flag is read after every
  sample, but only the \<open>while\<close> condition tests it, once per pass of \<open>cut*freq\<close> samples.
  With \<open>freq = 1\<close>, \<open>cut = 3\<close> and the flag set right after the start, the first sample
  already reads the flag as set, and two more samples are sent after that read.
\<close>

theorem samples_after_cancel_counterexample:
  "length (filter is_send (after_cancel
     (trace (snd (take_measurements 1 env_cancel 1 ''imu'' (Some 3) active_world))))) = 2"
proof -
  let ?bus = "\<lambda>(t::nat) (a::int) (r::int). if even t then 1 else (2::int)"
  have run: "take_measurements (Suc 0) env_cancel 1 ''imu'' (Some 3) active_world =
      (Some (Inr ()),
       emits ([FlagRead 0] @ pass_events env_cancel ?bus 1 ''IMU_Data'' ''imu'' 3 0 1 @ [PipeClose])
         active_world)"
    by (simp add: take_measurements_def try_body_def read_flag_def env_cancel_facts
        active_world_facts emits_simps
        for_loop_ok [where bus = ?bus and E = env_cancel])
  show ?thesis
    by (simp add: run emits_simps active_world_facts numeral_eq_Suc after_cancel_sample
        env_cancel_facts sample_observed)
qed

text \<open>
  Claim C6, amended. Take a task with a rotation period (\<open>cut > 0\<close>, \<open>freq > 0\<close>) on active
  sensors, with no failure, whose exit flag stays set once it is set and is set at time
  \<open>T\<close>. Then the task ends (enough fuel gives a normal return); at most \<open>cut*freq\<close> samples are
  sent from time \<open>T\<close> on, since the flag is read after every sample but tested only between
  passes: the pass in progress is finished, and a request that falls after the last flag
  read of a pass lets the whole next pass run; fewer than \<open>cut*freq\<close> samples follow the
  first read that finds the flag set; and the pipe is closed exactly once, as the last event.
  With \<open>freq = 1\<close>, \<open>cut = 2\<close> and the request at time 47, just after the last flag read
  of the first pass, both samples of the next pass are sent after it: the bound is reached.
\<close>

theorem cancel_ends_task_after_pass:
  assumes hb: "\<forall>t a r. read_byte E t a r = Some (bus t a r)"
    and io: "\<forall>t. io_ok E t"
    and act: "acc_active w" "mag_active w"
    and freq: "0 < freq" and c: "0 < c"
    and mono: "\<forall>t t'. t \<le> t' \<longrightarrow> flag_value E t \<noteq> 0 \<longrightarrow> flag_value E t' \<noteq> 0"
    and ev: "flag_value E T \<noteq> 0"
  shows "\<exists>fuel es. take_measurements fuel E freq file_name (Some c) w =
             (Some (Inr ()), emits (es @ [PipeClose]) w) \<and>
           PipeClose \<notin> set es \<and>
           length (filter is_send (drop (T - now w) es)) \<le> nat (c * freq) \<and>
           length (filter is_send (after_cancel es)) < nat (c * freq)"
proof (cases "flag_value E (now w) = 0")
  case False
  have "take_measurements 0 E freq file_name (Some c) w =
          (Some (Inr ()), emits ([FlagRead (flag_value E (now w))] @ [PipeClose]) w)"
    using False
    by (simp add: take_measurements_def try_body_def read_flag_def emits_simps Let_def)
  moreover have "PipeClose \<notin> set [FlagRead (flag_value E (now w))]" by simp
  moreover have "length (filter is_send (after_cancel [FlagRead (flag_value E (now w))]))
                   < nat (c * freq)"
    using False freq c by simp
  moreover have "length (filter is_send (drop (T - now w) [FlagRead (flag_value E (now w))]))
                   \<le> nat (c * freq)"
    by (cases "T - now w") simp_all
  ultimately show ?thesis by blast
next
  case True
  let ?w0 = "emits [FlagRead 0] w"
  have a: "acc_active ?w0" "mag_active ?w0" using act by (simp_all add: emits_simps)
  have hb': "\<And>t a r. read_byte E t a r = Some (bus t a r)" and io': "\<And>t. io_ok E t"
    using hb io by simp_all
  have T: "now w < T"
  proof (rule ccontr)
    assume "\<not> ?thesis"
    then have "T \<le> now w" by simp
    with mono ev True show False by blast
  qed
  then have inv: "filter is_send (drop T (trace ?w0)) = []"
    by (simp add: emits_simps now_def)
  from while_ok [OF hb' io' freq c mono ev a inv, where file_name = file_name] obtain fuel es where
    r: "while_loop fuel E freq file_name (Some c) 0 ?w0 = (Some (Inr ()), emits es ?w0)"
    and nc: "PipeClose \<notin> set es"
    and b: "length (filter is_send (after_cancel es)) < nat (c * freq)"
    and b2: "length (filter is_send (drop T (trace ?w0 @ es))) \<le> nat (c * freq)" by blast
  have "take_measurements fuel E freq file_name (Some c) w =
          (Some (Inr ()), emits (([FlagRead 0] @ es) @ [PipeClose]) w)"
    using True r
    by (simp add: take_measurements_def try_body_def read_flag_def emits_simps Let_def)
  moreover have "PipeClose \<notin> set ([FlagRead 0] @ es)" using nc by simp
  moreover have "length (filter is_send (after_cancel ([FlagRead 0] @ es))) < nat (c * freq)"
    using b by simp
  moreover have "drop T (trace ?w0 @ es) = drop (T - now w) ([FlagRead 0] @ es)"
    using T by (simp add: emits_simps now_def)
  then have "length (filter is_send (drop (T - now w) ([FlagRead 0] @ es))) \<le> nat (c * freq)"
    using b2 by simp
  ultimately show ?thesis by blast
qed

theorem cancel_ends_task_after_pass_witness:
  "(\<exists>fuel es. take_measurements fuel env_late 1 ''imu'' (Some 2) active_world =
             (Some (Inr ()), emits (es @ [PipeClose]) active_world) \<and>
           PipeClose \<notin> set es \<and>
           length (filter is_send (drop 47 es)) \<le> 2 \<and>
           length (filter is_send (after_cancel es)) < 2) \<and>
   length (filter is_send (drop 47
     (trace (snd (take_measurements 2 env_late 1 ''imu'' (Some 2) active_world))))) = 2"
  using cancel_ends_task_after_pass [of env_late "\<lambda>t a r. if even t then 1 else 2"
      active_world 1 2 47 "''imu''"] late_sends
  by (simp add: env_late_facts active_world_facts)

end
